theory Spec2Isabelle
  imports Complex_Main "HOL-Library.Sublist"
begin

section \<open>The weather pipeline of \<^verbatim>\<open>dw_weather_scrape.py\<close>\<close>

text \<open>
  The program has three tasks, run in sequence: \<^verbatim>\<open>scrape_weather_data\<close> reads one page per
  configured city and builds a list of raw records, \<^verbatim>\<open>transform_weather_data\<close> turns the raw
  columns into typed ones with pandas, and \<^verbatim>\<open>write_weather_data_to_bigquery\<close> creates the
  destination when it is missing and appends the batch.

  Conventions of the embedding.
  \<^item> A Python string is a \<open>string\<close>; a character stands for the code point of the same number
    (below 256), so the degree sign U+00B0 is \<open>CHR 0xB0\<close>. On these code points the regular
    expression class \<^verbatim>\<open>\d\<close> is exactly the ASCII digits.
  \<^item> A raised exception is the \<open>Inl\<close> of a sum; nothing in the three tasks catches an
    exception except the \<^verbatim>\<open>try\<close> around \<^verbatim>\<open>requests.get\<close>, so an \<open>Inl\<close> ends the task.
  \<^item> A pandas column is the list of its cells, a cell that is \<^verbatim>\<open>None\<close>/\<^verbatim>\<open>NaN\<close> is \<open>None\<close>.
    Each pandas call is modelled by its meaning on a column of strings and nulls; the type
    inference of \<^verbatim>\<open>read_json\<close> (which turns a column holding only numeric text or only nulls
    into a numeric column) is not modelled, and neither is the 64-bit width of integer columns.
  \<^item> Floating point numbers are modelled by the rationals they approximate; rounding is
    round-half-to-even as in numpy.
\<close>

datatype error =
  ValueError | TypeError | AttributeError | KeyError | IndexError | ParserError | OverflowError
  | NotFound | Conflict

definition bind_err :: "error + 'a \<Rightarrow> ('a \<Rightarrow> error + 'b) \<Rightarrow> error + 'b" where
  "bind_err r f = (case r of Inl e \<Rightarrow> Inl e | Inr v \<Rightarrow> f v)"

subsection \<open>Characters, digits and numbers\<close>

definition is_digit :: "char \<Rightarrow> bool" where
  "is_digit c = (c \<in> set ''0123456789'')"

text \<open>The characters \<^verbatim>\<open>str.split()\<close> and \<^verbatim>\<open>str.strip()\<close> treat as whitespace, below 256.\<close>

definition is_space :: "char \<Rightarrow> bool" where
  "is_space c = (of_char c \<in> set [9, 10, 11, 12, 13, 28, 29, 30, 31, 32, 133, 160 :: nat])"

definition degree_sign :: char where
  "degree_sign = CHR 0xB0"

definition newline :: char where
  "newline = CHR 0x0A"

definition digit_val :: "char \<Rightarrow> nat" where
  "digit_val c = of_char c - 48"

text \<open>The value of a run of decimal digits, as \<^verbatim>\<open>int\<close> reads it.\<close>

definition digits_val :: "string \<Rightarrow> nat" where
  "digits_val ds = foldl (\<lambda>a c. 10 * a + digit_val c) 0 ds"



subsection \<open>The regular expressions of the transform\<close>


text \<open>
  \<^verbatim>\<open>re.search("(\d+).*?(\d+)", s)\<close>, the two groups. The search starts at the first digit.
  The first group takes the whole run of digits; the lazy \<^verbatim>\<open>.*?\<close> then walks over characters
  other than the newline up to the next digit, where the second group takes the run. When a
  newline or the end of the text comes first, the first group gives back its last digit to the
  second group if the run has two digits or more; a run of one digit fails and the search
  goes on after it.
\<close>

fun re_pair :: "string \<Rightarrow> (string \<times> string) option" where
  "re_pair [] = None"
| "re_pair (c # cs) =
     (if \<not> is_digit c then re_pair cs
      else
        let d1 = c # takeWhile is_digit cs;
            rest = dropWhile is_digit cs;
            after = dropWhile (\<lambda>x. \<not> is_digit x \<and> x \<noteq> newline) rest
        in if after \<noteq> [] \<and> is_digit (hd after) then Some (d1, takeWhile is_digit after)
           else if 2 \<le> length d1 then Some (butlast d1, [last d1])
           else re_pair cs)"

subsection \<open>Column operations of pandas\<close>

text \<open>\<^verbatim>\<open>Series.str.extract\<close> on one cell: a null cell stays null.\<close>

definition str_extract :: "(string \<Rightarrow> 'a option) \<Rightarrow> string option \<Rightarrow> 'a option" where
  "str_extract re cell = (case cell of None \<Rightarrow> None | Some s \<Rightarrow> re s)"

text \<open>
  \<^verbatim>\<open>astype(int)\<close> on a column of extracted digit runs: one null cell makes the whole call
  raise (a \<^verbatim>\<open>NaN\<close> has no integer value).
\<close>

fun astype_int :: "string option list \<Rightarrow> error + int list" where
  "astype_int [] = Inr []"
| "astype_int (None # cells) = Inl ValueError"
| "astype_int (Some ds # cells) =
     (case astype_int cells of
        Inl e \<Rightarrow> Inl e
      | Inr vs \<Rightarrow> Inr (int (digits_val ds) # vs))"

subsection \<open>Temperature (lines 173 to 175)\<close>



subsection \<open>Paired readings: dewpoint (lines 195 to 197) and wind chill (lines 208 to 220)\<close>


text \<open>
  The wind chill pair is cast with \<^verbatim>\<open>astype(float)\<close>, which keeps a null, then
  \<^verbatim>\<open>fillna(0)\<close> and \<^verbatim>\<open>replace(0, None)\<close>, each cell on its own. The statement of lines 208 to
  213 computes the same columns without the \<^verbatim>\<open>replace\<close>; lines 214 to 220 overwrite them.
\<close>

definition astype_float_digits :: "string option \<Rightarrow> rat option" where
  "astype_float_digits cell = map_option (\<lambda>ds. of_nat (digits_val ds)) cell"

definition fillna :: "'a \<Rightarrow> 'a option \<Rightarrow> 'a" where
  "fillna v cell = (case cell of None \<Rightarrow> v | Some x \<Rightarrow> x)"

definition replace_0_None :: "rat \<Rightarrow> rat option" where
  "replace_0_None v = (if v = 0 then None else Some v)"

definition wind_chill_cell :: "string option \<Rightarrow> rat option \<times> rat option" where
  "wind_chill_cell wind_chill =
     (let g = str_extract re_pair wind_chill
      in (replace_0_None (fillna 0 (astype_float_digits (map_option fst g))),
          replace_0_None (fillna 0 (astype_float_digits (map_option snd g)))))"

definition wind_chill_columns :: "string option list \<Rightarrow> (rat option \<times> rat option) list" where
  "wind_chill_columns wind_chill = map wind_chill_cell wind_chill"

subsection \<open>Strings: \<^verbatim>\<open>split\<close>, \<^verbatim>\<open>strip\<close>, \<^verbatim>\<open>float\<close>\<close>

text \<open>\<^verbatim>\<open>s.split(sep)\<close> with a separator: every occurrence splits, from the left.\<close>

fun py_split :: "string \<Rightarrow> string \<Rightarrow> string list" where
  "py_split sep [] = [[]]"
| "py_split sep (c # cs) =
     (if sep \<noteq> [] \<and> prefix sep (c # cs) then [] # py_split sep (drop (length sep - 1) cs)
      else (case py_split sep cs of p # ps \<Rightarrow> (c # p) # ps | [] \<Rightarrow> [[c]]))"



definition py_strip :: "string \<Rightarrow> string" where
  "py_strip s = rev (dropWhile is_space (rev (dropWhile is_space s)))"



subsection \<open>Location (lines 160 to 162)\<close>

text \<open>
  \<^verbatim>\<open>str.split(", ", expand=True)\<close> gives a frame with as many columns as the longest split
  of the batch, shorter rows padded with \<^verbatim>\<open>None\<close>. Assigning it to the two columns
  \<^verbatim>\<open>city\<close> and \<^verbatim>\<open>state\<close> raises unless it has exactly two columns. \<^verbatim>\<open>astype(str)\<close> then
  turns a \<^verbatim>\<open>None\<close> into the text \<^verbatim>\<open>None\<close>. A row of the result is the pair (city, state).
\<close>

definition nth_or_None :: "'a list \<Rightarrow> nat \<Rightarrow> 'a option" where
  "nth_or_None xs i = (if i < length xs then Some (xs ! i) else None)"

definition astype_str :: "string option \<Rightarrow> string" where
  "astype_str cell = (case cell of None \<Rightarrow> ''None'' | Some s \<Rightarrow> s)"

definition location_split :: "string list \<Rightarrow> error + (string \<times> string) list" where
  "location_split location =
     (let parts = map (py_split '', '') location;
          width = foldr max (map length parts) 0
      in if width \<noteq> 2 then Inl ValueError
         else Inr (map (\<lambda>p. (astype_str (nth_or_None p 0), astype_str (nth_or_None p 1))) parts))"

subsection \<open>Barometer (lines 189 to 192)\<close>



subsection \<open>The extractor: \<^verbatim>\<open>scrape_weather_data\<close> (lines 65 to 143)\<close>

text \<open>The configured cities (lines 17 to 62).\<close>

record city_entry =
  Name :: string
  NWS_URL :: string

definition CITIES :: "city_entry list" where
  "CITIES =
    [\<lparr>Name = ''Portland, OR'',
      NWS_URL = ''https://forecast.weather.gov/MapClick.php?lat=45.5118&lon=-122.6756''\<rparr>,
     \<lparr>Name = ''San Diego, CA'',
      NWS_URL = ''https://forecast.weather.gov/MapClick.php?lat=32.7157&lon=-117.1617''\<rparr>,
     \<lparr>Name = ''Duluth, MN'',
      NWS_URL = ''https://forecast.weather.gov/MapClick.php?lat=46.788&lon=-92.0998''\<rparr>,
     \<lparr>Name = ''Minneapolis, MN'',
      NWS_URL = ''https://forecast.weather.gov/MapClick.php?lat=44.979&lon=-93.2649''\<rparr>,
     \<lparr>Name = ''Salt Lake City, UT'',
      NWS_URL = ''https://forecast.weather.gov/MapClick.php?zoneid=UTZ105&zflg=1''\<rparr>,
     \<lparr>Name = ''Denver, CO'',
      NWS_URL = ''https://forecast.weather.gov/MapClick.php?lat=39.74&lon=-104.992''\<rparr>,
     \<lparr>Name = ''San Francisco, CA'',
      NWS_URL = ''https://forecast.weather.gov/MapClick.php?lat=37.7771&lon=-122.4197''\<rparr>,
     \<lparr>Name = ''New York City, NY'',
      NWS_URL = ''https://forecast.weather.gov/MapClick.php?lat=40.7143&lon=-74.006''\<rparr>,
     \<lparr>Name = ''Portland, ME'',
      NWS_URL = ''https://forecast.weather.gov/MapClick.php?lat=43.6592&lon=-70.2567''\<rparr>,
     \<lparr>Name = ''Seattle, WA'',
      NWS_URL = ''https://forecast.weather.gov/MapClick.php?lat=47.6036&lon=-122.3294''\<rparr>,
     \<lparr>Name = ''Baltimore, MD'',
      NWS_URL = ''https://forecast.weather.gov/MapClick.php?lat=39.2906&lon=-76.6093''\<rparr>]"

text \<open>
  A parsed page, as far as the task looks at it: the answers of BeautifulSoup to the
  queries of lines 83 to 117. \<open>span_smallTxt\<close> and \<open>p_myforecast_current_lrg\<close> are the text
  of the element \<^verbatim>\<open>soup.find\<close> returns, \<open>None\<close> when it returns \<^verbatim>\<open>None\<close>. For a label,
  \<open>td_text\<close> is \<open>None\<close> when no cell has that text, \<open>Some None\<close> when the cell is found and
  \<^verbatim>\<open>find_next("td")\<close> returns \<^verbatim>\<open>None\<close>, and \<open>Some (Some t)\<close> when the following cell has the
  text \<open>t\<close>.
\<close>

record page =
  h2_panel_title :: "string option"
  span_smallTxt :: "string option"
  p_myforecast_current_lrg :: "string option"
  td_text :: "string \<Rightarrow> string option option"

text \<open>One element of \<^verbatim>\<open>data\<close> (lines 123 to 138); the fields are the keys of the dict.\<close>

record raw_record =
  raw_location :: string
  raw_lat :: string
  raw_lon :: string
  raw_elev_ft :: string
  raw_temperature :: "string option"
  raw_humidity :: "string option"
  raw_wind_speed :: "string option"
  raw_barometer :: "string option"
  raw_dewpoint :: "string option"
  raw_vis_miles :: "string option"
  raw_wind_chill :: "string option"
  raw_last_update :: "string option"

text \<open>
  The pattern of line 87, \<^verbatim>\<open>[-+]?\d*\.\d+|\d+\<close>, matched at the start of a text: an optional
  sign, digits, a point and at least one digit; or else, without a sign, a run of digits.
\<close>

definition match_number :: "string \<Rightarrow> string option" where
  "match_number s =
     (let sign = takeWhile (\<lambda>c. c = CHR ''-'' \<or> c = CHR ''+'') (take 1 s);
          u = drop (length sign) s;
          ip = takeWhile is_digit u;
          r = drop (length ip) u;
          fp = (case r of [] \<Rightarrow> [] | c # r' \<Rightarrow> if c = CHR ''.'' then takeWhile is_digit r' else [])
      in if fp \<noteq> [] then Some (sign @ ip @ ''.'' @ fp)
         else if sign = [] \<and> ip \<noteq> [] then Some ip
         else None)"

text \<open>\<^verbatim>\<open>re.findall\<close> with that pattern: the matches from left to right, not overlapping.\<close>

function re_findall_numbers :: "string \<Rightarrow> string list" where
  "re_findall_numbers s =
     (if s = [] then []
      else (case match_number s of
              None \<Rightarrow> re_findall_numbers (tl s)
            | Some m \<Rightarrow> m # re_findall_numbers (drop (length m) s)))"
  by pat_completeness auto
termination
proof (relation "measure length", goal_cases)
  case 1
  show ?case by simp
next
  case (2 s)
  then show ?case by (cases s) simp_all
next
  case (3 s m)
  then have "m \<noteq> []"
    by (auto simp: match_number_def Let_def split: if_splits)
  with 3 show ?case by (cases s) simp_all
qed

declare re_findall_numbers.simps [simp del]

text \<open>
  A labelled row (lines 91 to 120): \<^verbatim>\<open>elem.find_next("td").text.strip() if elem else None\<close>.
  The guard covers a missing label, not a label without a following cell.
\<close>

definition td_value :: "page \<Rightarrow> string \<Rightarrow> error + string option" where
  "td_value soup label =
     (case td_text soup label of
        None \<Rightarrow> Inr None
      | Some None \<Rightarrow> Inl AttributeError
      | Some (Some t) \<Rightarrow> Inr (Some (py_strip t)))"

text \<open>
  The body of the loop after the fetch (lines 80 to 138), for one city. Line 86 reads
  \<^verbatim>\<open>.text\<close> of the result of \<^verbatim>\<open>soup.find\<close> without a guard; line 87 unpacks the matches into
  three names, which raises unless there are exactly three.
\<close>

definition scrape_city :: "city_entry \<Rightarrow> page \<Rightarrow> error + raw_record" where
  "scrape_city city soup =
     (case span_smallTxt soup of
        None \<Rightarrow> Inl AttributeError
      | Some txt \<Rightarrow>
          (case re_findall_numbers (py_strip txt) of
             [lat, lon, elev] \<Rightarrow>
               bind_err (td_value soup ''Humidity'') (\<lambda>humidity.
               bind_err (td_value soup ''Wind Speed'') (\<lambda>wind_speed.
               bind_err (td_value soup ''Barometer'') (\<lambda>barometer.
               bind_err (td_value soup ''Dewpoint'') (\<lambda>dewpoint.
               bind_err (td_value soup ''Visibility'') (\<lambda>visibility.
               bind_err (td_value soup ''Wind Chill'') (\<lambda>wind_chill.
               bind_err (td_value soup ''Last update'') (\<lambda>last_update.
               Inr \<lparr>raw_location = Name city, raw_lat = lat, raw_lon = lon, raw_elev_ft = elev,
                    raw_temperature = p_myforecast_current_lrg soup,
                    raw_humidity = humidity, raw_wind_speed = wind_speed,
                    raw_barometer = barometer, raw_dewpoint = dewpoint,
                    raw_vis_miles = visibility, raw_wind_chill = wind_chill,
                    raw_last_update = last_update\<rparr>)))))))
           | _ \<Rightarrow> Inl ValueError))"

text \<open>
  The loop of line 75. \<open>requests_get\<close> stands for the network: \<open>None\<close> when
  \<^verbatim>\<open>requests.get\<close> raises, which the bare \<^verbatim>\<open>except\<close> of line 78 answers with \<^verbatim>\<open>continue\<close>;
  otherwise the parsed content of the response. Any other exception leaves the loop and
  the task.
\<close>

fun scrape_loop ::
  "(string \<Rightarrow> page option) \<Rightarrow> city_entry list \<Rightarrow> raw_record list \<Rightarrow> error + raw_record list" where
  "scrape_loop requests_get [] data = Inr data"
| "scrape_loop requests_get (city # cities) data =
     (case requests_get (NWS_URL city) of
        None \<Rightarrow> scrape_loop requests_get cities data
      | Some soup \<Rightarrow>
          (case scrape_city city soup of
             Inl e \<Rightarrow> Inl e
           | Inr r \<Rightarrow> scrape_loop requests_get cities (data @ [r])))"

definition scrape_weather_data :: "(string \<Rightarrow> page option) \<Rightarrow> error + raw_record list" where
  "scrape_weather_data requests_get = scrape_loop requests_get CITIES []"

text \<open>Two pages for examples: one as the service shows it, one whose small text has two numbers.\<close>

definition sample_page :: page where
  "sample_page =
     \<lparr>h2_panel_title = Some ''Denver, Denver International Airport (KDEN)'',
      span_smallTxt = Some ''Lat: 39.85 Lon: -104.66 Elev: 5404ft.'',
      p_myforecast_current_lrg = Some (''72'' @ degree_sign # ''F''),
      td_text =
        (\<lambda>label. None)
          (''Humidity'' := Some (Some ''45%''),
           ''Wind Speed'' := Some (Some ''NW 5 mph''),
           ''Barometer'' := Some (Some ''30.12 in (1019.6 mb)''),
           ''Dewpoint'' := Some (Some (''50'' @ degree_sign # ''F (10'' @ degree_sign # ''C)'')),
           ''Visibility'' := Some (Some ''10.00 mi''),
           ''Last update'' := Some (Some '' 26 Feb 10:53 am CST ''))\<rparr>"


text \<open>Two networks for examples: Denver unreachable; Denver answering with the second page.\<close>

definition denver_unreachable :: "string \<Rightarrow> page option" where
  "denver_unreachable url =
     (if url = ''https://forecast.weather.gov/MapClick.php?lat=39.74&lon=-104.992'' then None
      else Some sample_page)"


subsection \<open>The loader: \<^verbatim>\<open>write_weather_data_to_bigquery\<close> (lines 244 to 301)\<close>

definition DATASET_ID :: string where
  "DATASET_ID = ''weather-dw''"

definition DAILY_TABLE_ID :: string where
  "DAILY_TABLE_ID = ''daily''"

text \<open>The schema of lines 256 to 274: name, type and mode of each column.\<close>

definition SCHEMA :: "(string \<times> string \<times> string) list" where
  "SCHEMA =
    [(''location'', ''STRING'', ''REQUIRED''),
     (''lat'', ''FLOAT'', ''REQUIRED''),
     (''lon'', ''FLOAT'', ''REQUIRED''),
     (''elev_ft'', ''INTEGER'', ''REQUIRED''),
     (''humidity'', ''FLOAT'', ''REQUIRED''),
     (''wind_speed'', ''INTEGER'', ''REQUIRED''),
     (''barometer'', ''FLOAT'', ''REQUIRED''),
     (''vis_miles'', ''FLOAT'', ''REQUIRED''),
     (''dewpoint_f'', ''INTEGER'', ''REQUIRED''),
     (''dewpoint_c'', ''INTEGER'', ''REQUIRED''),
     (''wind_chill_f'', ''FLOAT'', ''REQUIRED''),
     (''wind_chill_c'', ''FLOAT'', ''REQUIRED''),
     (''city'', ''STRING'', ''REQUIRED''),
     (''state'', ''STRING'', ''REQUIRED''),
     (''temp_f'', ''INTEGER'', ''REQUIRED''),
     (''temp_c'', ''INTEGER'', ''REQUIRED''),
     (''last_update'', ''STRING'', ''REQUIRED'')]"

text \<open>
  The warehouse behind the client, as far as the task uses it: datasets by id, each with a
  location and its tables by id; a table has a schema and rows. The four client calls
  answer as the service does on that state: a \<^verbatim>\<open>get\<close> of something absent raises
  \<^verbatim>\<open>NotFound\<close>, a \<^verbatim>\<open>create\<close> of something present raises \<^verbatim>\<open>Conflict\<close>. Failures of the
  connection are outside the model.
\<close>

record 'row table =
  table_schema :: "(string \<times> string \<times> string) list"
  table_rows :: "'row list"

record 'row dataset =
  dataset_location :: string
  dataset_tables :: "string \<rightharpoonup> 'row table"

record 'row warehouse =
  datasets :: "string \<rightharpoonup> 'row dataset"

definition get_dataset :: "'row warehouse \<Rightarrow> string \<Rightarrow> error + 'row dataset" where
  "get_dataset client dataset_id =
     (case datasets client dataset_id of None \<Rightarrow> Inl NotFound | Some d \<Rightarrow> Inr d)"

definition create_dataset :: "'row warehouse \<Rightarrow> string \<Rightarrow> string \<Rightarrow> error + 'row warehouse" where
  "create_dataset client dataset_id loc =
     (case datasets client dataset_id of
        Some d \<Rightarrow> Inl Conflict
      | None \<Rightarrow>
          Inr (client\<lparr>datasets := (datasets client)
                 (dataset_id \<mapsto> \<lparr>dataset_location = loc, dataset_tables = Map.empty\<rparr>)\<rparr>))"

definition get_table :: "'row warehouse \<Rightarrow> string \<Rightarrow> string \<Rightarrow> error + 'row table" where
  "get_table client dataset_id table_id =
     (case datasets client dataset_id of
        None \<Rightarrow> Inl NotFound
      | Some d \<Rightarrow> (case dataset_tables d table_id of None \<Rightarrow> Inl NotFound | Some t \<Rightarrow> Inr t))"

definition create_table ::
  "'row warehouse \<Rightarrow> string \<Rightarrow> string \<Rightarrow> (string \<times> string \<times> string) list
     \<Rightarrow> error + 'row warehouse" where
  "create_table client dataset_id table_id schema =
     (case datasets client dataset_id of
        None \<Rightarrow> Inl NotFound
      | Some d \<Rightarrow>
          (case dataset_tables d table_id of
             Some t \<Rightarrow> Inl Conflict
           | None \<Rightarrow>
               Inr (client\<lparr>datasets := (datasets client)
                      (dataset_id \<mapsto> d\<lparr>dataset_tables := (dataset_tables d)
                         (table_id \<mapsto> \<lparr>table_schema = schema, table_rows = []\<rparr>)\<rparr>)\<rparr>)))"

text \<open>
  \<^verbatim>\<open>load_table_from_dataframe\<close> with \<^verbatim>\<open>WRITE_APPEND\<close>, then \<^verbatim>\<open>job.result()\<close>: the rows of the
  frame are added after the rows of the table.
\<close>

definition load_table_from_dataframe ::
  "'row warehouse \<Rightarrow> 'row list \<Rightarrow> string \<Rightarrow> string \<Rightarrow> error + 'row warehouse" where
  "load_table_from_dataframe client df dataset_id table_id =
     (case datasets client dataset_id of
        None \<Rightarrow> Inl NotFound
      | Some d \<Rightarrow>
          (case dataset_tables d table_id of
             None \<Rightarrow> Inl NotFound
           | Some t \<Rightarrow>
               Inr (client\<lparr>datasets := (datasets client)
                      (dataset_id \<mapsto> d\<lparr>dataset_tables := (dataset_tables d)
                         (table_id \<mapsto> t\<lparr>table_rows := table_rows t @ df\<rparr>)\<rparr>)\<rparr>)))"

text \<open>
  Lines 280 to 295, the part the specification calls \<open>ensure_schema\<close>: two
  \<^verbatim>\<open>try\<close>/\<^verbatim>\<open>except NotFound\<close> blocks, the dataset first, then the table.
\<close>

definition ensure_schema :: "'row warehouse \<Rightarrow> error + 'row warehouse" where
  "ensure_schema client =
     bind_err
       (case get_dataset client DATASET_ID of
          Inr dataset \<Rightarrow> Inr client
        | Inl e \<Rightarrow> if e = NotFound then create_dataset client DATASET_ID ''US'' else Inl e)
       (\<lambda>client.
          case get_table client DATASET_ID DAILY_TABLE_ID of
            Inr table \<Rightarrow> Inr client
          | Inl e \<Rightarrow>
              if e = NotFound then create_table client DATASET_ID DAILY_TABLE_ID SCHEMA
              else Inl e)"

definition write_weather_data_to_bigquery ::
  "'row warehouse \<Rightarrow> 'row list \<Rightarrow> error + 'row warehouse" where
  "write_weather_data_to_bigquery client df =
     bind_err (ensure_schema client) (\<lambda>client.
       load_table_from_dataframe client df DATASET_ID DAILY_TABLE_ID)"

text \<open>Two warehouses for examples: an empty one, and one that has the table, with a row.\<close>

definition empty_warehouse :: "nat warehouse" where
  "empty_warehouse = \<lparr>datasets = Map.empty\<rparr>"

definition loaded_warehouse :: "nat warehouse" where
  "loaded_warehouse =
     \<lparr>datasets = [DATASET_ID \<mapsto>
        \<lparr>dataset_location = ''US'',
         dataset_tables = [DAILY_TABLE_ID \<mapsto> \<lparr>table_schema = SCHEMA, table_rows = [7]\<rparr>]\<rparr>]\<rparr>"

section \<open>Properties\<close>

subsection \<open>Digits and rounding\<close>







subsection \<open>Temperature\<close>



subsection \<open>Paired readings\<close>





lemma astype_int_single: "astype_int [Some ds] = Inr [int (digits_val ds)]"
  by simp





subsection \<open>Location\<close>

lemma py_split_no_sep:
  "\<not> sublist '', '' s \<Longrightarrow> py_split '', '' s = [s]"
proof (induction s)
  case Nil
  show ?case by simp
next
  case (Cons c cs)
  from Cons.prems have np: "\<not> prefix '', '' (c # cs)"
    by (meson prefix_imp_sublist)
  from Cons.prems have "\<not> sublist '', '' cs"
    by (meson sublist_Cons_right)
  with Cons.IH have "py_split '', '' cs = [cs]" by simp
  with np show ?case by simp
qed

lemma py_split_first_sep:
  assumes "\<not> sublist '', '' city"
  shows "py_split '', '' (city @ '', '' @ state) = city # py_split '', '' state"
  using assms
proof (induction city)
  case Nil
  show ?case by simp
next
  case (Cons c cs)
  have np: "\<not> prefix '', '' ((c # cs) @ '', '' @ state)"
  proof
    assume p: "prefix '', '' ((c # cs) @ '', '' @ state)"
    show False
    proof (cases cs)
      case Nil
      with p show False by simp
    next
      case (Cons d ds)
      with p have "prefix '', '' (c # cs)" by simp
      then have "sublist '', '' (c # cs)" by (rule prefix_imp_sublist)
      with Cons.prems show False by simp
    qed
  qed
  from Cons.prems have "\<not> sublist '', '' cs"
    by (meson sublist_Cons_right)
  with Cons.IH have "py_split '', '' (cs @ '', '' @ state) = cs # py_split '', '' state" by simp
  with np show ?case by simp
qed

lemma py_split_one_sep:
  assumes "\<not> sublist '', '' city" and "\<not> sublist '', '' state"
  shows "py_split '', '' (city @ '', '' @ state) = [city, state]"
  using assms py_split_first_sep [of city state] py_split_no_sep [of state] by simp

text \<open>
  C4, as the code has it. In a batch that is not empty and in which every location is
  \<open>city, state\<close> with one separator \<^verbatim>\<open>", "\<close> (none inside \<open>city\<close>, none inside \<open>state\<close>), the
  columns \<open>city\<close> and \<open>state\<close> are the text before and after the separator;
  \<^verbatim>\<open>Denver, CO\<close> gives \<^verbatim>\<open>Denver\<close> and \<^verbatim>\<open>CO\<close>.
\<close>

theorem location_split_one_separator:
  assumes "rows \<noteq> []"
    and "\<forall>(city, state)\<in>set rows. \<not> sublist '', '' city \<and> \<not> sublist '', '' state"
  shows "location_split (map (\<lambda>(city, state). city @ '', '' @ state) rows) = Inr rows"
proof -
  let ?parts = "map (py_split '', '') (map (\<lambda>(city, state). city @ '', '' @ state) rows)"
  have parts: "?parts = map (\<lambda>(city, state). [city, state]) rows"
    using assms(2) by (induction rows) (auto simp: py_split_one_sep [simplified])
  have "foldr max (map length (map (\<lambda>(city, state). [city, state]) rows)) 0 = 2"
    using assms(1)
  proof (induction rows)
    case Nil
    then show ?case by simp
  next
    case (Cons r rs)
    then show ?case by (cases rs) (auto simp: case_prod_unfold)
  qed
  moreover have "map (\<lambda>p. (astype_str (nth_or_None p 0), astype_str (nth_or_None p 1)))
      (map (\<lambda>(city, state). [city, state]) rows) = rows"
    by (induction rows) (auto simp: astype_str_def nth_or_None_def)
  ultimately show ?thesis
    unfolding location_split_def parts by (simp add: Let_def)
qed

theorem location_split_Denver_witness:
  "location_split [''Denver, CO''] = Inr [(''Denver'', ''CO'')]"
proof -
  have "\<forall>(city, state)\<in>set [(''Denver'', ''CO'')].
      \<not> sublist '', '' city \<and> \<not> sublist '', '' state"
    by (simp add: sublist_code(3))
  from location_split_one_separator [OF _ this] show ?thesis by simp
qed

text \<open>
  C4 as stated fails. A location without a separator next to one with a separator gets the
  state \<^verbatim>\<open>None\<close> (four letters), not the empty text; a batch in which no location has a
  separator raises; and so does a batch with a location that has two separators, which is
  split at both.
\<close>

theorem location_without_separator_counterexample:
  "location_split [''Denver, CO'', ''Nowhere'']
     = Inr [(''Denver'', ''CO''), (''Nowhere'', ''None'')]
   \<and> ''None'' \<noteq> ''''
   \<and> location_split [''Nowhere''] = Inl ValueError
   \<and> location_split [''Denver, CO'', ''a, b, c''] = Inl ValueError"
  by (simp add: location_split_def nth_or_None_def astype_str_def)

subsection \<open>Barometer\<close>













subsection \<open>The extractor\<close>

lemma sample_numbers:
  "re_findall_numbers (py_strip ''Lat: 39.85 Lon: -104.66 Elev: 5404ft.'') = [''39.85'', ''-104.66'', ''5404'']"
  by (simp add: py_strip_def is_space_def re_findall_numbers.simps match_number_def is_digit_def)


lemma td_value_present_or_absent:
  assumes "td_text soup label \<noteq> Some None"
  shows "td_value soup label = Inr (Option.bind (td_text soup label) (map_option py_strip))"
  using assms by (auto simp: td_value_def split: option.splits)

lemma scrape_city_three_numbers:
  assumes "span_smallTxt soup = Some txt"
    and "re_findall_numbers (py_strip txt) = [lat, lon, elev]"
    and "\<forall>label. td_text soup label \<noteq> Some None"
  shows "scrape_city city soup =
     Inr \<lparr>raw_location = Name city, raw_lat = lat, raw_lon = lon, raw_elev_ft = elev,
          raw_temperature = p_myforecast_current_lrg soup,
          raw_humidity = Option.bind (td_text soup ''Humidity'') (map_option py_strip),
          raw_wind_speed = Option.bind (td_text soup ''Wind Speed'') (map_option py_strip),
          raw_barometer = Option.bind (td_text soup ''Barometer'') (map_option py_strip),
          raw_dewpoint = Option.bind (td_text soup ''Dewpoint'') (map_option py_strip),
          raw_vis_miles = Option.bind (td_text soup ''Visibility'') (map_option py_strip),
          raw_wind_chill = Option.bind (td_text soup ''Wind Chill'') (map_option py_strip),
          raw_last_update = Option.bind (td_text soup ''Last update'') (map_option py_strip)\<rparr>"
proof -
  have v: "\<And>label. td_value soup label
      = Inr (Option.bind (td_text soup label) (map_option py_strip))"
    using assms(3) by (intro td_value_present_or_absent) simp
  show ?thesis
    unfolding scrape_city_def by (simp add: assms(1,2) v bind_err_def)
qed

lemma sample_page_no_dangling_label: "td_text sample_page label \<noteq> Some None"
  by (simp add: sample_page_def)

lemma scrape_city_sample_page:
  "scrape_city city sample_page =
     Inr \<lparr>raw_location = Name city, raw_lat = ''39.85'', raw_lon = ''-104.66'',
          raw_elev_ft = ''5404'',
          raw_temperature = Some (''72'' @ degree_sign # ''F''),
          raw_humidity = Some ''45%'',
          raw_wind_speed = Some ''NW 5 mph'',
          raw_barometer = Some ''30.12 in (1019.6 mb)'',
          raw_dewpoint = Some (''50'' @ degree_sign # ''F (10'' @ degree_sign # ''C)''),
          raw_vis_miles = Some ''10.00 mi'',
          raw_wind_chill = None,
          raw_last_update = Some ''26 Feb 10:53 am CST''\<rparr>"
proof -
  have s: "span_smallTxt sample_page = Some ''Lat: 39.85 Lon: -104.66 Elev: 5404ft.''"
    by (simp add: sample_page_def)
  have strip: "py_strip '' 26 Feb 10:53 am CST '' = ''26 Feb 10:53 am CST''"
    "py_strip ''45%'' = ''45%''" "py_strip ''NW 5 mph'' = ''NW 5 mph''"
    "py_strip ''30.12 in (1019.6 mb)'' = ''30.12 in (1019.6 mb)''"
    "py_strip ''10.00 mi'' = ''10.00 mi''"
    "py_strip (''50'' @ degree_sign # ''F (10'' @ degree_sign # ''C)'')
       = ''50'' @ degree_sign # ''F (10'' @ degree_sign # ''C)''"
    by (simp_all add: py_strip_def is_space_def degree_sign_def)
  show ?thesis
    unfolding scrape_city_three_numbers [OF s sample_numbers, of city,
        OF allI [OF sample_page_no_dangling_label]]
    by (simp add: sample_page_def strip del: append.simps)
qed


lemma scrape_city_location: "scrape_city city soup = Inr r \<Longrightarrow> raw_location r = Name city"
  unfolding scrape_city_def bind_err_def
  by (auto split: option.splits list.splits sum.splits)

lemma scrape_loop_skips_failed_fetch:
  "scrape_loop requests_get cities data
     = scrape_loop requests_get (filter (\<lambda>c. requests_get (NWS_URL c) \<noteq> None) cities) data"
  by (induction cities arbitrary: data) (auto split: option.splits sum.splits)

lemma scrape_loop_all_extracted:
  assumes "\<forall>c\<in>set cities. \<forall>soup. requests_get (NWS_URL c) = Some soup
             \<longrightarrow> (\<exists>r. scrape_city c soup = Inr r)"
  shows "\<exists>records. scrape_loop requests_get cities data = Inr (data @ records)
           \<and> map raw_location records
               = map Name (filter (\<lambda>c. requests_get (NWS_URL c) \<noteq> None) cities)"
  using assms
proof (induction cities arbitrary: data)
  case Nil
  show ?case by simp
next
  case (Cons c cities)
  show ?case
  proof (cases "requests_get (NWS_URL c)")
    case None
    with Cons.IH [of data] Cons.prems show ?thesis by simp
  next
    case (Some soup)
    with Cons.prems obtain r where r: "scrape_city c soup = Inr r" by auto
    from Cons.IH [of "data @ [r]"] Cons.prems obtain records where
      "scrape_loop requests_get cities (data @ [r]) = Inr ((data @ [r]) @ records)"
      "map raw_location records
         = map Name (filter (\<lambda>c. requests_get (NWS_URL c) \<noteq> None) cities)"
      by auto
    with Some r scrape_city_location [OF r] show ?thesis
      by (intro exI [of _ "r # records"]) simp
  qed
qed

lemma length_CITIES: "length CITIES = 11"
  by (simp add: CITIES_def)

text \<open>
  C8. A target whose fetch fails is skipped and nothing else changes: the run is the run
  over the targets that were fetched. When the extraction of every fetched page goes
  through and exactly one of the 11 configured cities fails to fetch, the task returns
  exactly 10 raw records, those of the 10 other cities in order.
\<close>

theorem fetch_failure_skips_only_that_target:
  "scrape_weather_data requests_get
     = scrape_loop requests_get (filter (\<lambda>c. requests_get (NWS_URL c) \<noteq> None) CITIES) []
   \<and> ((\<forall>c\<in>set CITIES. \<forall>soup. requests_get (NWS_URL c) = Some soup
          \<longrightarrow> (\<exists>r. scrape_city c soup = Inr r))
        \<and> length (filter (\<lambda>c. requests_get (NWS_URL c) = None) CITIES) = 1
       \<longrightarrow> (\<exists>records. scrape_weather_data requests_get = Inr records
             \<and> length records = 10
             \<and> map raw_location records
                 = map Name (filter (\<lambda>c. requests_get (NWS_URL c) \<noteq> None) CITIES)))"
proof (intro conjI impI)
  show "scrape_weather_data requests_get
     = scrape_loop requests_get (filter (\<lambda>c. requests_get (NWS_URL c) \<noteq> None) CITIES) []"
    unfolding scrape_weather_data_def by (rule scrape_loop_skips_failed_fetch)
next
  assume a: "(\<forall>c\<in>set CITIES. \<forall>soup. requests_get (NWS_URL c) = Some soup
          \<longrightarrow> (\<exists>r. scrape_city c soup = Inr r))
        \<and> length (filter (\<lambda>c. requests_get (NWS_URL c) = None) CITIES) = 1"
  then obtain records where r: "scrape_loop requests_get CITIES [] = Inr ([] @ records)"
    "map raw_location records
       = map Name (filter (\<lambda>c. requests_get (NWS_URL c) \<noteq> None) CITIES)"
    using scrape_loop_all_extracted [of CITIES requests_get "[]"] by blast
  have "length (filter (\<lambda>c. requests_get (NWS_URL c) = None) CITIES)
      + length (filter (\<lambda>c. \<not> requests_get (NWS_URL c) = None) CITIES) = length CITIES"
    by (rule sum_length_filter_compl)
  with a have "length (filter (\<lambda>c. requests_get (NWS_URL c) \<noteq> None) CITIES) = 10"
    by (simp add: length_CITIES)
  with r(2) have "length records = 10"
    by (metis length_map)
  with r show "\<exists>records. scrape_weather_data requests_get = Inr records
             \<and> length records = 10
             \<and> map raw_location records
                 = map Name (filter (\<lambda>c. requests_get (NWS_URL c) \<noteq> None) CITIES)"
    by (simp add: scrape_weather_data_def)
qed

theorem fetch_failure_denver_witness:
  "length (filter (\<lambda>c. denver_unreachable (NWS_URL c) = None) CITIES) = 1
   \<and> (\<exists>records. scrape_weather_data denver_unreachable = Inr records
         \<and> length records = 10
         \<and> map raw_location records
             = [''Portland, OR'', ''San Diego, CA'', ''Duluth, MN'', ''Minneapolis, MN'',
                ''Salt Lake City, UT'', ''San Francisco, CA'', ''New York City, NY'',
                ''Portland, ME'', ''Seattle, WA'', ''Baltimore, MD''])"
proof -
  have ok: "\<forall>c\<in>set CITIES. \<forall>soup. denver_unreachable (NWS_URL c) = Some soup
          \<longrightarrow> (\<exists>r. scrape_city c soup = Inr r)"
    by (auto simp: denver_unreachable_def scrape_city_sample_page split: if_splits)
  have one: "length (filter (\<lambda>c. denver_unreachable (NWS_URL c) = None) CITIES) = 1"
    by (simp add: CITIES_def denver_unreachable_def)
  have names: "map Name (filter (\<lambda>c. denver_unreachable (NWS_URL c) \<noteq> None) CITIES)
      = [''Portland, OR'', ''San Diego, CA'', ''Duluth, MN'', ''Minneapolis, MN'',
         ''Salt Lake City, UT'', ''San Francisco, CA'', ''New York City, NY'',
         ''Portland, ME'', ''Seattle, WA'', ''Baltimore, MD'']"
    by (simp add: CITIES_def denver_unreachable_def)
  from fetch_failure_skips_only_that_target [of denver_unreachable] ok one
  have "\<exists>records. scrape_weather_data denver_unreachable = Inr records
         \<and> length records = 10
         \<and> map raw_location records
             = map Name (filter (\<lambda>c. denver_unreachable (NWS_URL c) \<noteq> None) CITIES)"
    by blast
  with one show ?thesis
    by (simp only: names)
qed




subsection \<open>The loader\<close>

lemma ensure_schema_result:
  "ensure_schema client =
     Inr (case datasets client DATASET_ID of
            None \<Rightarrow>
              client\<lparr>datasets := (datasets client)
                (DATASET_ID \<mapsto> \<lparr>dataset_location = ''US'',
                   dataset_tables = [DAILY_TABLE_ID \<mapsto> \<lparr>table_schema = SCHEMA, table_rows = []\<rparr>]\<rparr>)\<rparr>
          | Some d \<Rightarrow>
              (case dataset_tables d DAILY_TABLE_ID of
                 Some t \<Rightarrow> client
               | None \<Rightarrow>
                   client\<lparr>datasets := (datasets client)
                     (DATASET_ID \<mapsto> d\<lparr>dataset_tables := (dataset_tables d)
                        (DAILY_TABLE_ID \<mapsto> \<lparr>table_schema = SCHEMA, table_rows = []\<rparr>)\<rparr>)\<rparr>))"
  by (simp add: ensure_schema_def bind_err_def get_dataset_def create_dataset_def
      get_table_def create_table_def split: option.splits)

lemma ensure_schema_table_exists:
  assumes "ensure_schema client = Inr client'"
  shows "\<exists>t. get_table client' DATASET_ID DAILY_TABLE_ID = Inr t"
  using assms unfolding ensure_schema_result
  by (auto simp: get_table_def split: option.splits)

lemma ensure_schema_noop:
  assumes "get_table client DATASET_ID DAILY_TABLE_ID = Inr t"
  shows "ensure_schema client = Inr client"
  using assms unfolding ensure_schema_result
  by (auto simp: get_table_def split: option.splits)

lemma ensure_schema_creates:
  assumes "get_table client DATASET_ID DAILY_TABLE_ID = Inl e"
    and "ensure_schema client = Inr client'"
  shows "get_table client' DATASET_ID DAILY_TABLE_ID
           = Inr \<lparr>table_schema = SCHEMA, table_rows = []\<rparr>"
  using assms unfolding ensure_schema_result
  by (auto simp: get_table_def split: option.splits)

text \<open>
  C9. Lines 280 to 295 never raise on a warehouse state; the state they return has the
  table; run again on that state they return it unchanged, so the table definition is the
  same and nothing is created twice. A table that exists before the call is the same table
  after it (schema and rows), and the whole state is unchanged; a table that is absent is
  created with the schema of the task and no rows.
\<close>

theorem ensure_schema_idempotent:
  "\<exists>client'. ensure_schema client = Inr client'
     \<and> ensure_schema client' = Inr client'
     \<and> (\<forall>t. get_table client DATASET_ID DAILY_TABLE_ID = Inr t
            \<longrightarrow> client' = client \<and> get_table client' DATASET_ID DAILY_TABLE_ID = Inr t)
     \<and> (\<forall>e. get_table client DATASET_ID DAILY_TABLE_ID = Inl e
            \<longrightarrow> get_table client' DATASET_ID DAILY_TABLE_ID
                  = Inr \<lparr>table_schema = SCHEMA, table_rows = []\<rparr>)"
proof -
  obtain client' where c: "ensure_schema client = Inr client'"
    unfolding ensure_schema_result by blast
  from ensure_schema_table_exists [OF c] obtain t'
    where "get_table client' DATASET_ID DAILY_TABLE_ID = Inr t'" ..
  then have again: "ensure_schema client' = Inr client'"
    by (rule ensure_schema_noop)
  have keep: "\<forall>t. get_table client DATASET_ID DAILY_TABLE_ID = Inr t
            \<longrightarrow> client' = client \<and> get_table client' DATASET_ID DAILY_TABLE_ID = Inr t"
    using c ensure_schema_noop [of client] by auto
  have new: "\<forall>e. get_table client DATASET_ID DAILY_TABLE_ID = Inl e
            \<longrightarrow> get_table client' DATASET_ID DAILY_TABLE_ID
                  = Inr \<lparr>table_schema = SCHEMA, table_rows = []\<rparr>"
    using c ensure_schema_creates [of client _ client'] by blast
  from c again keep new show ?thesis by blast
qed

theorem ensure_schema_idempotent_witness:
  "get_table loaded_warehouse DATASET_ID DAILY_TABLE_ID
     = Inr \<lparr>table_schema = SCHEMA, table_rows = [7]\<rparr>
   \<and> ensure_schema loaded_warehouse = Inr loaded_warehouse
   \<and> get_table empty_warehouse DATASET_ID DAILY_TABLE_ID = Inl NotFound
   \<and> (\<exists>client'. ensure_schema empty_warehouse = Inr client'
         \<and> ensure_schema client' = Inr client'
         \<and> get_table client' DATASET_ID DAILY_TABLE_ID
             = Inr \<lparr>table_schema = SCHEMA, table_rows = []\<rparr>)"
proof -
  have l: "get_table loaded_warehouse DATASET_ID DAILY_TABLE_ID
     = Inr \<lparr>table_schema = SCHEMA, table_rows = [7]\<rparr>"
    by (simp add: get_table_def loaded_warehouse_def)
  have e: "get_table empty_warehouse DATASET_ID DAILY_TABLE_ID = Inl NotFound"
    by (simp add: get_table_def empty_warehouse_def)
  from ensure_schema_idempotent [of loaded_warehouse] l
  have "ensure_schema loaded_warehouse = Inr loaded_warehouse" by auto
  moreover from ensure_schema_idempotent [of empty_warehouse] e
  have "\<exists>client'. ensure_schema empty_warehouse = Inr client'
         \<and> ensure_schema client' = Inr client'
         \<and> get_table client' DATASET_ID DAILY_TABLE_ID
             = Inr \<lparr>table_schema = SCHEMA, table_rows = []\<rparr>" by auto
  ultimately show ?thesis using l e by blast
qed

end
